theory Spec2Isabelle
  imports Complex_Main "HOL-Library.Word"
begin

section \<open>JavaScript values\<close>

text \<open>
  A JavaScript string is a sequence of UTF-16 code units and \<open>.length\<close> counts code
  units, so a string is a list of 16-bit words. \<open>lit\<close> embeds the ASCII literals of
  the source.
\<close>

type_synonym code_unit = "16 word"
type_synonym jsstring = "code_unit list"

definition lit :: "string \<Rightarrow> jsstring" where
  "lit s = map of_char s"

text \<open>
  The values the mapper handles: what \<open>JSON.parse\<close> builds (null, booleans, numbers,
  strings, arrays, objects), \<open>undefined\<close>, and the built-in members every object
  literal inherits from \<open>Object.prototype\<close>. Numbers are IEEE doubles; the program
  only moves them around, so their type is the parameter \<open>'n\<close>. An object lists its
  own properties, each key once.
\<close>

datatype 'n jsvalue =
    JUndefined
  | JNull
  | JBool bool
  | JNumber 'n
  | JString jsstring
  | JArray "'n jsvalue list"
  | JObject "(jsstring \<times> 'n jsvalue) list"
  | JNative jsstring

datatype exn =
    TypeError
  | SyntaxError
  | Rejected jsstring

text \<open>The property names every object inherits from \<open>Object.prototype\<close>.\<close>

definition Object_prototype :: "jsstring list" where
  "Object_prototype = map lit
     [''constructor'', ''__defineGetter__'', ''__defineSetter__'', ''hasOwnProperty'',
      ''__lookupGetter__'', ''__lookupSetter__'', ''isPrototypeOf'',
      ''propertyIsEnumerable'', ''toString'', ''valueOf'', ''__proto__'',
      ''toLocaleString'']"

text \<open>
  \<open>obj[k]\<close> on an object: the own property, else the inherited member, else
  \<open>undefined\<close>.
\<close>

definition lookup :: "(jsstring \<times> 'n jsvalue) list \<Rightarrow> jsstring \<Rightarrow> 'n jsvalue" where
  "lookup kvs k =
     (case map_of kvs k of
        Some v \<Rightarrow> v
      | None \<Rightarrow> if k \<in> set Object_prototype then JNative k else JUndefined)"

text \<open>
  \<open>v.k\<close> for the property names the program reads from values it did not build
  (\<open>command\<close>, \<open>args\<close>, \<open>filename\<close>, \<open>searchTerm\<close>; no built-in prototype defines
  any of them): reading a property of \<open>undefined\<close> or \<open>null\<close> throws a TypeError,
  an object answers with \<open>lookup\<close>, every other value with \<open>undefined\<close>.
\<close>

fun member :: "'n jsvalue \<Rightarrow> jsstring \<Rightarrow> exn + 'n jsvalue" where
  "member JUndefined k = Inl TypeError"
| "member JNull k = Inl TypeError"
| "member (JObject kvs) k = Inr (lookup kvs k)"
| "member v k = Inr JUndefined"

section \<open>The language-model endpoint\<close>

text \<open>
  A chat-completion request, as far as the two mapping operations differ: the model
  identifier, the user message, and the declared callables - one function whose
  \<open>command\<close> parameter is an enum (with the forced \<open>function_call\<close>), or a list of
  tools. The system instruction, the descriptions and the temperature are constants
  of the request and are not represented.
\<close>

datatype callables =
    Functions jsstring "jsstring list" jsstring
  | Tools "jsstring list"

record request =
  model :: jsstring
  user_content :: jsstring
  declared :: callables

text \<open>The part of a chat completion the mapper reads.\<close>

record FunctionCall =
  name :: jsstring
  arguments :: jsstring

text \<open>A tool call's \<open>type\<close> and \<open>function\<close> are \<open>tc_type\<close> and \<open>tc_function\<close>.\<close>

record ToolCall =
  tc_type :: jsstring
  tc_function :: FunctionCall

record Message =
  function_call :: "FunctionCall option"
  tool_calls :: "ToolCall list option"

record Choice =
  message :: "Message option"

record ChatCompletion =
  choices :: "Choice list"

section \<open>Host state and effects\<close>

datatype 'n console_entry =
    Log jsstring "'n jsvalue"
  | Error jsstring exn

text \<open>
  The lines \<open>processRecording\<close> appends to the output channel, by the template
  that builds each and the values it interpolates.
\<close>

datatype 'n channel_line =
    Transcribing_using jsstring
  | Transcription_raw jsstring
  | Error_parsing_function_arguments exn
  | Executing_command "'n jsvalue" "'n jsvalue list"
  | Error_executing_command exn
  | Transcription_line jsstring
  | Error_line exn

text \<open>
  The interfaces \<open>Segment\<close> and \<open>Transcription\<close>. The fields \<open>id\<close>, \<open>end\<close> and
  \<open>text\<close> of a segment are \<open>seg_id\<close>, \<open>seg_end\<close> and \<open>seg_text\<close> here.
\<close>

record 'n Segment =
  seg_id :: 'n
  seek :: 'n
  start :: 'n
  seg_end :: 'n
  seg_text :: jsstring
  tokens :: "'n list"
  temperature :: 'n

record 'n Transcription =
  "text" :: jsstring
  segments :: "'n Segment list"
  language :: jsstring

text \<open>
  What the operations leave behind: the requests sent to the endpoint, the console,
  the error notifications shown to the user, the host commands invoked, the output
  channel and the transcriptions written to the temp file.
\<close>

record 'n host =
  requests :: "request list"
  console :: "'n console_entry list"
  errorMessages :: "jsstring list"
  invoked :: "('n jsvalue \<times> 'n jsvalue list) list"
  outputChannel :: "'n channel_line list"
  written :: "'n Transcription list"

text \<open>
  The collaborators: the endpoint answers a request with a completion or throws,
  \<open>JSON.parse\<close> returns a value or throws a SyntaxError (\<open>None\<close>), the host runs a
  named command with arguments or rejects.
\<close>

record 'n env =
  chat_completions_create :: "request \<Rightarrow> exn + ChatCompletion"
  JSON_parse :: "jsstring \<Rightarrow> 'n jsvalue option"
  commands_executeCommand :: "'n jsvalue \<Rightarrow> 'n jsvalue list \<Rightarrow> exn option"

text \<open>A computation runs on the host state and returns a value or throws.\<close>

type_synonym ('a, 'n) prog = "'n host \<Rightarrow> (exn + 'a) \<times> 'n host"

definition ret :: "'a \<Rightarrow> ('a, 'n) prog" where
  "ret x = (\<lambda>s. (Inr x, s))"

definition throw :: "exn \<Rightarrow> ('a, 'n) prog" where
  "throw e = (\<lambda>s. (Inl e, s))"

definition bind :: "('a, 'n) prog \<Rightarrow> ('a \<Rightarrow> ('b, 'n) prog) \<Rightarrow> ('b, 'n) prog" where
  "bind m f = (\<lambda>s. case m s of (Inl e, s') \<Rightarrow> (Inl e, s') | (Inr x, s') \<Rightarrow> f x s')"

definition try_catch :: "('a, 'n) prog \<Rightarrow> (exn \<Rightarrow> ('a, 'n) prog) \<Rightarrow> ('a, 'n) prog" where
  "try_catch m h = (\<lambda>s. case m s of (Inl e, s') \<Rightarrow> h e s' | (Inr x, s') \<Rightarrow> (Inr x, s'))"

definition lift :: "exn + 'a \<Rightarrow> ('a, 'n) prog" where
  "lift r = (\<lambda>s. (r, s))"

definition console_log :: "jsstring \<Rightarrow> 'n jsvalue \<Rightarrow> (unit, 'n) prog" where
  "console_log msg v = (\<lambda>s. (Inr (), s\<lparr>console := console s @ [Log msg v]\<rparr>))"

definition console_error :: "jsstring \<Rightarrow> exn \<Rightarrow> (unit, 'n) prog" where
  "console_error msg e = (\<lambda>s. (Inr (), s\<lparr>console := console s @ [Error msg e]\<rparr>))"

definition appendLine :: "'n channel_line \<Rightarrow> (unit, 'n) prog" where
  "appendLine l = (\<lambda>s. (Inr (), s\<lparr>outputChannel := outputChannel s @ [l]\<rparr>))"

definition showErrorMessage :: "jsstring \<Rightarrow> (unit, 'n) prog" where
  "showErrorMessage msg = (\<lambda>s. (Inr (), s\<lparr>errorMessages := errorMessages s @ [msg]\<rparr>))"

definition create :: "('n, 'z) env_scheme \<Rightarrow> request \<Rightarrow> (ChatCompletion, 'n) prog" where
  "create env req =
     (\<lambda>s. (chat_completions_create env req, s\<lparr>requests := requests s @ [req]\<rparr>))"

definition parse :: "('n, 'z) env_scheme \<Rightarrow> jsstring \<Rightarrow> ('n jsvalue, 'n) prog" where
  "parse env a = (case JSON_parse env a of None \<Rightarrow> throw SyntaxError | Some v \<Rightarrow> ret v)"

definition vscode_executeCommand ::
  "('n, 'z) env_scheme \<Rightarrow> 'n jsvalue \<Rightarrow> 'n jsvalue list \<Rightarrow> (unit, 'n) prog" where
  "vscode_executeCommand env c as =
     (\<lambda>s. ((case commands_executeCommand env c as of Some e \<Rightarrow> Inl e | None \<Rightarrow> Inr ()),
           s\<lparr>invoked := invoked s @ [(c, as)]\<rparr>))"

section \<open>The command mapper\<close>

text \<open>The enum of the function schema in \<open>mapTranscriptionToCommand\<close>'s request.\<close>

definition command_enum :: "jsstring list" where
  "command_enum = map lit
     [''workbench.action.quickOpen'',
      ''workbench.action.files.newUntitledFile'',
      ''workbench.action.files.save'',
      ''workbench.action.closeActiveEditor'',
      ''workbench.action.findInFiles'',
      ''references-view.findReferences'']"

definition functions_request :: "jsstring \<Rightarrow> request" where
  "functions_request content =
     \<lparr>model = lit ''gpt-4'', user_content = content,
      declared = Functions (lit ''executeVSCodeCommand'') command_enum
                   (lit ''executeVSCodeCommand'')\<rparr>"

text \<open>\<open>completion.choices[0]?.message?.function_call?.arguments\<close>\<close>

definition function_call_arguments :: "ChatCompletion \<Rightarrow> jsstring option" where
  "function_call_arguments completion =
     (case choices completion of
        [] \<Rightarrow> None
      | c # _ \<Rightarrow>
          (case message c of
             None \<Rightarrow> None
           | Some m \<Rightarrow>
               (case function_call m of None \<Rightarrow> None | Some fc \<Rightarrow> Some (arguments fc))))"

text \<open>
  The empty string is falsy: \<open>!transcription.text\<close> holds of the empty text, and an
  empty \<open>arguments\<close> fails the \<open>if\<close>.
\<close>

definition mapTranscriptionToCommand ::
  "('n, 'z) env_scheme \<Rightarrow> 'n Transcription \<Rightarrow> ('n jsvalue, 'n) prog" where
  "mapTranscriptionToCommand env transcription =
     try_catch
       (if text transcription = [] \<or> length (text transcription) \<le> 2 then ret JUndefined
        else
          bind (create env (functions_request (text transcription))) (\<lambda>completion.
            case function_call_arguments completion of
              None \<Rightarrow> ret JUndefined
            | Some a \<Rightarrow>
                if a \<noteq> [] then bind (parse env a) (\<lambda>args. ret args)
                else ret JUndefined))
       (\<lambda>error.
          bind (console_error (lit ''Error mapping transcription to command:'') error) (\<lambda>_.
          bind (showErrorMessage (lit ''Failed to map voice command to VS Code action'')) (\<lambda>_.
          ret JUndefined)))"

definition executeCommand :: "('n, 'z) env_scheme \<Rightarrow> 'n jsvalue \<Rightarrow> (unit, 'n) prog" where
  "executeCommand env mapping =
     try_catch
       (bind (console_log (lit ''Executing command:'') mapping) (\<lambda>_.
        bind (lift (member mapping (lit ''command''))) (\<lambda>c.
        bind (lift (member mapping (lit ''args''))) (\<lambda>a.
        vscode_executeCommand env c [a]))))
       (\<lambda>error.
          bind (console_error (lit ''Error executing VS Code command:'') error) (\<lambda>_.
          showErrorMessage (lit ''Failed to execute VS Code command'')))"

definition VS_CODE_COMMAND_TOOLS :: "jsstring list" where
  "VS_CODE_COMMAND_TOOLS = map lit
     [''quickOpen'', ''newFile'', ''saveFile'', ''closeEditor'', ''findInFiles'',
      ''findReferences'']"

definition tools_request :: "jsstring \<Rightarrow> request" where
  "tools_request content =
     \<lparr>model = lit ''gpt-4'', user_content = content,
      declared = Tools VS_CODE_COMMAND_TOOLS\<rparr>"

text \<open>\<open>completion.choices[0]?.message?.tool_calls?.[0]\<close>\<close>

definition first_tool_call :: "ChatCompletion \<Rightarrow> ToolCall option" where
  "first_tool_call completion =
     (case choices completion of
        [] \<Rightarrow> None
      | c # _ \<Rightarrow>
          (case message c of
             None \<Rightarrow> None
           | Some m \<Rightarrow>
               (case tool_calls m of
                  None \<Rightarrow> None
                | Some [] \<Rightarrow> None
                | Some (tc # _) \<Rightarrow> Some tc)))"

definition commandMap :: "(jsstring \<times> 'n jsvalue) list" where
  "commandMap =
     [(lit ''quickOpen'', JString (lit ''workbench.action.quickOpen'')),
      (lit ''newFile'', JString (lit ''workbench.action.files.newUntitledFile'')),
      (lit ''saveFile'', JString (lit ''workbench.action.files.save'')),
      (lit ''closeEditor'', JString (lit ''workbench.action.closeActiveEditor'')),
      (lit ''findInFiles'', JString (lit ''workbench.action.findInFiles'')),
      (lit ''findReferences'', JString (lit ''references-view.findReferences''))]"

definition mapTranscriptionToCommandViaTools ::
  "('n, 'z) env_scheme \<Rightarrow> 'n Transcription \<Rightarrow> ('n jsvalue, 'n) prog" where
  "mapTranscriptionToCommandViaTools env transcription =
     try_catch
       (if text transcription = [] \<or> length (text transcription) \<le> 2 then ret JUndefined
        else
          bind (create env (tools_request (text transcription))) (\<lambda>completion.
            case first_tool_call completion of
              None \<Rightarrow> ret JUndefined
            | Some toolCall \<Rightarrow>
                if tc_type toolCall = lit ''function''
                   \<and> arguments (tc_function toolCall) \<noteq> []
                then
                  bind (parse env (arguments (tc_function toolCall))) (\<lambda>args.
                  bind (lift (member args (lit ''filename''))) (\<lambda>filename.
                  ret (JObject
                    [(lit ''command'', lookup commandMap (name (tc_function toolCall))),
                     (lit ''args'', filename)])))
                else ret JUndefined))
       (\<lambda>error.
          bind (console_error (lit ''Error mapping transcription to command:'') error) (\<lambda>_.
          bind (showErrorMessage (lit ''Failed to map voice command to VS Code action'')) (\<lambda>_.
          ret JUndefined)))"

section \<open>Transcribing a recording\<close>

datatype ApiProvider = localhost | openai | groq

definition PROVIDER_MODELS :: "ApiProvider \<Rightarrow> jsstring" where
  "PROVIDER_MODELS provider =
     (case provider of
        openai \<Rightarrow> lit ''whisper-1''
      | groq \<Rightarrow> lit ''whisper-large-v3-turbo''
      | localhost \<Rightarrow> lit ''whisper-1'')"

text \<open>
  The speech engine's verbose response, as far as \<open>processRecording\<close> reads it. Its
  segments carry the seven fields of \<open>Segment\<close> (and others that are never read).
\<close>

record 'n TranscriptionVerbose =
  raw_text :: jsstring
  raw_segments :: "'n Segment list option"
  raw_language :: jsstring

text \<open>
  The collaborators of \<open>SpeechTranscription\<close>: the configured provider, the speech
  engine (by model identifier), the runtime's conversions (\<open>ToBoolean\<close> on numbers,
  string interpolation, \<open>JSON.stringify\<close>), the file system, and the text shown for
  an error. Interpolating a value into a template literal converts it to a string,
  which throws a TypeError for an object that has no primitive form (one whose own
  \<open>toString\<close> is not callable); \<open>JSON.stringify\<close> of a decoded value does not throw.
\<close>

record 'n speech_env = "'n env" +
  apiProvider :: "ApiProvider option"
  audio_transcriptions_create :: "jsstring \<Rightarrow> exn + 'n TranscriptionVerbose"
  ToBoolean_number :: "'n \<Rightarrow> bool"
  ToString :: "'n jsvalue \<Rightarrow> exn + jsstring"
  JSON_stringify :: "'n jsvalue \<Rightarrow> jsstring"
  writeFile :: "'n Transcription \<Rightarrow> exn option"
  errorMessage :: "exn \<Rightarrow> jsstring"

definition recording_request :: "jsstring \<Rightarrow> request" where
  "recording_request content =
     \<lparr>model = lit ''gpt-4o'', user_content = content,
      declared = Functions (lit ''executeVSCodeCommand'') command_enum
                   (lit ''executeVSCodeCommand'')\<rparr>"

text \<open>JavaScript truthiness, as \<open>if\<close>, \<open>?:\<close> and \<open>filter(Boolean)\<close> apply it.\<close>

fun truthy :: "('n \<Rightarrow> bool) \<Rightarrow> 'n jsvalue \<Rightarrow> bool" where
  "truthy nb JUndefined = False"
| "truthy nb JNull = False"
| "truthy nb (JBool b) = b"
| "truthy nb (JNumber n) = nb n"
| "truthy nb (JString s) = (s \<noteq> [])"
| "truthy nb v = True"

text \<open>\<open>v?.k\<close>: \<open>undefined\<close> when \<open>v\<close> is \<open>undefined\<close> or \<open>null\<close>, else \<open>v.k\<close>.\<close>

definition optional_member :: "'n jsvalue \<Rightarrow> jsstring \<Rightarrow> 'n jsvalue" where
  "optional_member v k =
     (case member v k of Inl _ \<Rightarrow> JUndefined | Inr x \<Rightarrow> x)"

text \<open>
  \<open>completion?.choices[0]?.message?.function_call\<close>, where \<open>completion\<close> is
  \<open>false\<close> (\<open>None\<close>) when the raw text was too short for a request: \<open>false\<close> is not
  nullish, \<open>false.choices\<close> is \<open>undefined\<close>, and indexing it throws.
\<close>

definition first_function_call :: "ChatCompletion option \<Rightarrow> exn + FunctionCall option" where
  "first_function_call completion =
     (case completion of
        None \<Rightarrow> Inl TypeError
      | Some c \<Rightarrow>
          Inr (case choices c of
                 [] \<Rightarrow> None
               | ch # _ \<Rightarrow> (case message ch of None \<Rightarrow> None | Some m \<Rightarrow> function_call m)))"

text \<open>The body of \<open>if (functionCall?.arguments) { try { ... } catch { ... } }\<close>.\<close>

definition interpret_function_call ::
  "('n, 'z) speech_env_scheme \<Rightarrow> FunctionCall option
     \<Rightarrow> (jsstring \<times> 'n jsvalue \<times> 'n jsvalue list, 'n) prog" where
  "interpret_function_call env functionCall =
     (let unchanged = (lit ''none'', JString [], []) in
      case functionCall of
        None \<Rightarrow> ret unchanged
      | Some fc \<Rightarrow>
          if arguments fc \<noteq> [] then
            try_catch
              (bind (parse env (arguments fc)) (\<lambda>args.
               bind (lift (member args (lit ''command''))) (\<lambda>command.
               bind (lift (ToString env command)) (\<lambda>shown.
               bind (lift (member args (lit ''args''))) (\<lambda>a.
               ret (shown
                      @ (if truthy (ToBoolean_number env) a
                         then lit '' '' @ JSON_stringify env a else []),
                    command,
                    filter (truthy (ToBoolean_number env))
                      [optional_member a (lit ''filename''),
                       optional_member a (lit ''searchTerm'')]))))))
              (\<lambda>error.
                 bind (appendLine (Error_parsing_function_arguments error)) (\<lambda>_.
                 ret unchanged))
          else ret unchanged)"

text \<open>The \<open>map\<close> callback that builds each segment of the result.\<close>

definition convert_segment :: "'n::zero Segment \<Rightarrow> 'n Segment" where
  "convert_segment seg =
     \<lparr>seg_id = seg_id seg, seek = 0, start = start seg, seg_end = seg_end seg,
      seg_text = seg_text seg, tokens = [], temperature = 0\<rparr>"

definition processRecording ::
  "('n::zero, 'z) speech_env_scheme \<Rightarrow> ('n Transcription option, 'n) prog" where
  "processRecording env =
     try_catch
       (let provider = (case apiProvider env of None \<Rightarrow> openai | Some p \<Rightarrow> p) in
        bind (appendLine (Transcribing_using
                (case provider of localhost \<Rightarrow> lit ''localhost'' | openai \<Rightarrow> lit ''openai''
                 | groq \<Rightarrow> lit ''groq''))) (\<lambda>_.
        bind (lift (audio_transcriptions_create env (PROVIDER_MODELS provider)))
          (\<lambda>transcription.
        bind (appendLine (Transcription_raw (raw_text transcription))) (\<lambda>_.
        bind (if 2 < length (raw_text transcription)
              then bind (create env (recording_request (raw_text transcription)))
                     (\<lambda>c. ret (Some c))
              else ret None) (\<lambda>completion.
        bind (lift (first_function_call completion)) (\<lambda>functionCall.
        bind (interpret_function_call env functionCall) (\<lambda>(processedText, command, args).
        let result =
              \<lparr>text = processedText,
               segments = (case raw_segments transcription of
                             None \<Rightarrow> []
                           | Some segs \<Rightarrow> map convert_segment segs),
               language = raw_language transcription\<rparr> in
        bind (if truthy (ToBoolean_number env) command
              then try_catch
                     (bind (appendLine (Executing_command command args)) (\<lambda>_.
                      vscode_executeCommand env command args))
                     (\<lambda>error. appendLine (Error_executing_command error))
              else ret ()) (\<lambda>_.
        bind (\<lambda>s. case writeFile env result of
                     Some e \<Rightarrow> (Inl e, s)
                   | None \<Rightarrow> (Inr (), s\<lparr>written := written s @ [result]\<rparr>)) (\<lambda>_.
        bind (appendLine (Transcription_line (text result))) (\<lambda>_.
        if length (text result) = 0 then ret None else ret (Some result)))))))))))
       (\<lambda>error.
          bind (appendLine (Error_line error)) (\<lambda>_.
          bind (showErrorMessage (lit ''Whisper Assistant: '' @ errorMessage env error)) (\<lambda>_.
          ret None)))"

section \<open>Sample runs\<close>

text \<open>
  Concrete collaborators for the examples: a host with nothing recorded yet, a
  transcription of a given text, model replies carrying a function call, a tool call
  or plain content, and \<open>JSON.parse\<close> on the payloads the examples use.
\<close>

definition empty_host :: "real host" where
  "empty_host =
     \<lparr>requests = [], console = [], errorMessages = [], invoked = [],
      outputChannel = [], written = []\<rparr>"

definition spoken :: "jsstring \<Rightarrow> real Transcription" where
  "spoken content = \<lparr>text = content, segments = [], language = lit ''en''\<rparr>"

definition function_call_reply :: "jsstring \<Rightarrow> ChatCompletion" where
  "function_call_reply a =
     \<lparr>choices = [\<lparr>message = Some
        \<lparr>function_call = Some \<lparr>name = lit ''executeVSCodeCommand'', arguments = a\<rparr>,
         tool_calls = None\<rparr>\<rparr>]\<rparr>"

definition tool_call_reply :: "jsstring \<Rightarrow> jsstring \<Rightarrow> ChatCompletion" where
  "tool_call_reply n a =
     \<lparr>choices = [\<lparr>message = Some
        \<lparr>function_call = None,
         tool_calls = Some [\<lparr>tc_type = lit ''function'',
                             tc_function = \<lparr>name = n, arguments = a\<rparr>\<rparr>]\<rparr>\<rparr>]\<rparr>"

definition content_reply :: ChatCompletion where
  "content_reply =
     \<lparr>choices = [\<lparr>message = Some \<lparr>function_call = None, tool_calls = None\<rparr>\<rparr>]\<rparr>"

definition sample_JSON_parse :: "jsstring \<Rightarrow> real jsvalue option" where
  "sample_JSON_parse = map_of
     [(lit ''{\"command\":\"workbench.action.quickOpen\",\"args\":{\"filename\":\"config\"}}'',
         JObject [(lit ''command'', JString (lit ''workbench.action.quickOpen'')),
                  (lit ''args'', JObject [(lit ''filename'', JString (lit ''config''))])]),
      (lit ''{\"command\":\"workbench.action.files.save\"}'',
         JObject [(lit ''command'', JString (lit ''workbench.action.files.save''))]),
      (lit ''{\"command\":\"workbench.action.terminal.kill\"}'',
         JObject [(lit ''command'', JString (lit ''workbench.action.terminal.kill''))]),
      (lit ''{\"filename\":\"config\"}'',
         JObject [(lit ''filename'', JString (lit ''config''))]),
      (lit ''{}'', JObject []),
      (lit ''null'', JNull)]"

definition answering :: "ChatCompletion \<Rightarrow> real env" where
  "answering completion =
     \<lparr>chat_completions_create = (\<lambda>_. Inr completion),
      JSON_parse = sample_JSON_parse,
      commands_executeCommand = (\<lambda>_ _. None)\<rparr>"

text \<open>A host that knows no command: every invocation is rejected.\<close>

definition rejecting :: "real env" where
  "rejecting =
     \<lparr>chat_completions_create = (\<lambda>_. Inr content_reply),
      JSON_parse = sample_JSON_parse,
      commands_executeCommand = (\<lambda>_ _. Some (Rejected (lit ''command not found'')))\<rparr>"

text \<open>
  A speech engine that heard "save" in one segment, with the seek offset, tokens and
  temperature it reports, and a model that answers with the save command.
\<close>

definition heard_segment :: "real Segment" where
  "heard_segment =
     \<lparr>seg_id = 0, seek = 3000, start = 0, seg_end = 1.5, seg_text = lit '' save'',
      tokens = [50364, 4155, 50439], temperature = 0.2\<rparr>"

text \<open>
  String conversion on the values the examples interpolate: a string is itself,
  \<open>undefined\<close> and \<open>null\<close> are their names, a decoded object is
  \<open>[object Object]\<close> unless it has a \<open>toString\<close> property of its own, which is not
  callable and leaves it without a primitive form. The examples interpolate no other
  value.
\<close>

definition sample_ToString :: "real jsvalue \<Rightarrow> exn + jsstring" where
  "sample_ToString v =
     (case v of
        JString s \<Rightarrow> Inr s
      | JUndefined \<Rightarrow> Inr (lit ''undefined'')
      | JNull \<Rightarrow> Inr (lit ''null'')
      | JObject kvs \<Rightarrow>
          (case map_of kvs (lit ''toString'') of
             None \<Rightarrow> Inr (lit ''[object Object]'')
           | Some _ \<Rightarrow> Inl TypeError)
      | _ \<Rightarrow> Inl TypeError)"

definition hearing :: "real speech_env" where
  "hearing =
     \<lparr>chat_completions_create =
        (\<lambda>_. Inr (function_call_reply (lit ''{\"command\":\"workbench.action.files.save\"}''))),
      JSON_parse = sample_JSON_parse,
      commands_executeCommand = (\<lambda>_ _. None),
      apiProvider = Some openai,
      audio_transcriptions_create =
        (\<lambda>_. Inr \<lparr>raw_text = lit '' save'', raw_segments = Some [heard_segment],
                   raw_language = lit ''english''\<rparr>),
      ToBoolean_number = (\<lambda>n. n \<noteq> 0),
      ToString = sample_ToString,
      JSON_stringify = (\<lambda>_. lit ''{}''),
      writeFile = (\<lambda>_. None),
      errorMessage = (\<lambda>_. lit ''failed'')\<rparr>"

section \<open>String literals\<close>

lemma of_char_code_unit_eq_iff:
  "(of_char c :: code_unit) = of_char d \<longleftrightarrow> c = d"
proof
  assume h: "(of_char c :: code_unit) = of_char d"
  have b: "(of_char x :: nat) < 2 ^ 16" for x
  proof -
    have "(of_char x :: nat) < 256" by (rule nat_of_char_less_256)
    also have "(256::nat) < 2 ^ 16" by simp
    finally show ?thesis .
  qed
  have "unat (of_nat (of_char c) :: code_unit) = unat (of_nat (of_char d) :: code_unit)"
    using h by (simp only: of_nat_of_char)
  then have "(of_char c :: nat) = of_char d"
    using b[of c] b[of d] by (simp add: unat_of_nat take_bit_nat_eq_self)
  then show "c = d" by simp
qed simp

lemma lit_eq_iff: "lit s = lit t \<longleftrightarrow> s = t"
  unfolding lit_def by (metis inj_map_eq_map injI of_char_code_unit_eq_iff)

lemma lit_Nil_iff: "lit s = [] \<longleftrightarrow> s = []"
  by (simp add: lit_def)

lemma Nil_lit_iff: "[] = lit s \<longleftrightarrow> s = []"
  by (simp add: lit_def)

lemma length_lit: "length (lit s) = length s"
  by (simp add: lit_def)

section \<open>Unfolding the operations\<close>

lemmas prog_defs = ret_def throw_def bind_def try_catch_def lift_def console_log_def
  console_error_def showErrorMessage_def appendLine_def create_def parse_def
  vscode_executeCommand_def

lemmas sample_defs = empty_host_def spoken_def function_call_reply_def tool_call_reply_def
  content_reply_def sample_JSON_parse_def answering_def rejecting_def

lemmas lit_simps = lit_eq_iff lit_Nil_iff Nil_lit_iff length_lit

section \<open>The primary mapping path\<close>

text \<open>
  C3. A transcription whose text is empty or at most two code units long makes both
  \<open>mapTranscriptionToCommand\<close> and \<open>mapTranscriptionToCommandViaTools\<close> return
  \<open>undefined\<close> at once: the host state is the one they started in, so no request was
  sent to the endpoint (and nothing was logged or shown).
\<close>

theorem short_text_absent_without_request:
  assumes "length (text t) \<le> 2"
  shows "mapTranscriptionToCommand env t s = (Inr JUndefined, s)
       \<and> mapTranscriptionToCommandViaTools env t s = (Inr JUndefined, s)
       \<and> requests (snd (mapTranscriptionToCommand env t s)) = requests s
       \<and> requests (snd (mapTranscriptionToCommandViaTools env t s)) = requests s"
  using assms
  by (simp add: mapTranscriptionToCommand_def mapTranscriptionToCommandViaTools_def
      try_catch_def ret_def)

theorem short_text_absent_without_request_witness:
  "length (text (spoken (lit ''ok''))) \<le> 2
   \<and> mapTranscriptionToCommand (answering content_reply) (spoken (lit ''ok'')) empty_host
       = (Inr JUndefined, empty_host)
   \<and> mapTranscriptionToCommandViaTools (answering content_reply) (spoken []) empty_host
       = (Inr JUndefined, empty_host)
   \<and> requests (snd (mapTranscriptionToCommandViaTools (answering content_reply)
        (spoken (lit ''ok'')) empty_host)) = []"
  using short_text_absent_without_request
      [of "spoken (lit ''ok'')" "answering content_reply" empty_host]
    short_text_absent_without_request
      [of "spoken []" "answering content_reply" empty_host]
  by (simp add: spoken_def length_lit empty_host_def)

text \<open>
  C2. When the model's reply carries a function call whose arguments decode, the
  operation returns the decoded value itself, whatever its fields are; the only effect
  is the one request. (Arguments that decode are not the empty string, which
  \<open>JSON.parse\<close> rejects.)
\<close>

theorem function_call_arguments_returned:
  assumes "2 < length (text t)"
    and "chat_completions_create env (functions_request (text t)) = Inr completion"
    and "function_call_arguments completion = Some a"
    and "a \<noteq> []"
    and "JSON_parse env a = Some v"
  shows "mapTranscriptionToCommand env t s =
           (Inr v, s\<lparr>requests := requests s @ [functions_request (text t)]\<rparr>)"
  using assms
  by (auto simp add: mapTranscriptionToCommand_def prog_defs)

theorem function_call_arguments_returned_witness:
  "fst (mapTranscriptionToCommand
          (answering (function_call_reply
             (lit ''{\"command\":\"workbench.action.quickOpen\",\"args\":{\"filename\":\"config\"}}'')))
          (spoken (lit ''open the config file'')) empty_host)
   = Inr (JObject [(lit ''command'', JString (lit ''workbench.action.quickOpen'')),
                   (lit ''args'', JObject [(lit ''filename'', JString (lit ''config''))])])"
  using function_call_arguments_returned
    [of "spoken (lit ''open the config file'')"
        "answering (function_call_reply
           (lit ''{\"command\":\"workbench.action.quickOpen\",\"args\":{\"filename\":\"config\"}}''))"
        "function_call_reply
           (lit ''{\"command\":\"workbench.action.quickOpen\",\"args\":{\"filename\":\"config\"}}'')"
        "lit ''{\"command\":\"workbench.action.quickOpen\",\"args\":{\"filename\":\"config\"}}''"
        "JObject [(lit ''command'', JString (lit ''workbench.action.quickOpen'')),
                  (lit ''args'', JObject [(lit ''filename'', JString (lit ''config''))])]"
        empty_host]
  by (simp add: sample_defs function_call_arguments_def lit_simps)

text \<open>
  C1, as the code has it. The mapping \<open>mapTranscriptionToCommand\<close> produces is the
  decoded arguments of the model's function call and nothing else: a value other than
  \<open>undefined\<close> is returned exactly when the text is longer than two code units and
  the reply's function-call arguments decode to that value. No condition on the
  \<open>command\<close> field takes part, so the field is in the enumeration of the request's
  schema when the model kept to it, and outside it otherwise.
\<close>

theorem produced_mapping_is_decoded_response:
  assumes "r \<noteq> JUndefined"
  shows "fst (mapTranscriptionToCommand env t s) = Inr r
     \<longleftrightarrow> 2 < length (text t)
        \<and> (\<exists>completion a.
              chat_completions_create env (functions_request (text t)) = Inr completion
            \<and> function_call_arguments completion = Some a
            \<and> a \<noteq> []
            \<and> JSON_parse env a = Some r)"
  using assms
  by (auto simp add: mapTranscriptionToCommand_def prog_defs
      split: if_splits sum.splits option.splits)

theorem produced_mapping_is_decoded_response_witness:
  "JObject [(lit ''command'', JString (lit ''workbench.action.files.save''))]
     \<noteq> (JUndefined :: real jsvalue)
   \<and> fst (mapTranscriptionToCommand
          (answering (function_call_reply (lit ''{\"command\":\"workbench.action.files.save\"}'')))
          (spoken (lit ''save'')) empty_host)
     = Inr (JObject [(lit ''command'', JString (lit ''workbench.action.files.save''))])
   \<and> lit ''workbench.action.files.save'' \<in> set command_enum"
  using produced_mapping_is_decoded_response
    [of "JObject [(lit ''command'', JString (lit ''workbench.action.files.save''))]"
        "answering (function_call_reply (lit ''{\"command\":\"workbench.action.files.save\"}''))"
        "spoken (lit ''save'')" empty_host]
  by (simp add: sample_defs function_call_arguments_def lit_simps command_enum_def)

text \<open>
  C1 as stated fails: a reply whose \<open>command\<close> is \<open>workbench.action.terminal.kill\<close>,
  outside the enumeration, is returned as the mapping, and \<open>executeCommand\<close> hands
  that command to the host.
\<close>

theorem unknown_command_returned_for_execution:
  "fst (mapTranscriptionToCommand
          (answering (function_call_reply
             (lit ''{\"command\":\"workbench.action.terminal.kill\"}'')))
          (spoken (lit ''kill the terminal'')) empty_host)
     = Inr (JObject [(lit ''command'', JString (lit ''workbench.action.terminal.kill''))])
   \<and> lit ''workbench.action.terminal.kill'' \<notin> set command_enum
   \<and> invoked (snd (executeCommand
          (answering (function_call_reply
             (lit ''{\"command\":\"workbench.action.terminal.kill\"}'')))
          (JObject [(lit ''command'', JString (lit ''workbench.action.terminal.kill''))])
          empty_host))
     = [(JString (lit ''workbench.action.terminal.kill''), [JUndefined])]"
  by (simp add: mapTranscriptionToCommand_def executeCommand_def prog_defs sample_defs
      function_call_arguments_def lit_simps command_enum_def lookup_def Object_prototype_def)

text \<open>
  C7. A reply with no function call (no choice, no message, or a message without
  \<open>function_call\<close>) makes \<open>mapTranscriptionToCommand\<close> return \<open>undefined\<close>; it is not
  a failure, so no notification is shown.
\<close>

theorem no_function_call_absent:
  assumes "chat_completions_create env (functions_request (text t)) = Inr completion"
    and "function_call_arguments completion = None"
  shows "fst (mapTranscriptionToCommand env t s) = Inr JUndefined
       \<and> errorMessages (snd (mapTranscriptionToCommand env t s)) = errorMessages s"
  using assms
  by (auto simp add: mapTranscriptionToCommand_def prog_defs)

theorem no_function_call_absent_witness:
  "function_call_arguments content_reply = None
   \<and> mapTranscriptionToCommand (answering content_reply) (spoken (lit ''hello there''))
       empty_host
     = (Inr JUndefined,
        empty_host\<lparr>requests := [functions_request (lit ''hello there'')]\<rparr>)"
  using no_function_call_absent
    [of "answering content_reply" "spoken (lit ''hello there'')" content_reply empty_host]
  by (simp add: mapTranscriptionToCommand_def prog_defs sample_defs
      function_call_arguments_def lit_simps)

text \<open>
  A function call with the empty string for arguments is treated as no function call:
  nothing is decoded and nothing is reported.
\<close>

lemma empty_arguments_not_decoded:
  assumes "2 < length (text t)"
    and "chat_completions_create env (functions_request (text t)) = Inr completion"
    and "function_call_arguments completion = Some []"
  shows "mapTranscriptionToCommand env t s =
           (Inr JUndefined, s\<lparr>requests := requests s @ [functions_request (text t)]\<rparr>)"
  using assms
  by (auto simp add: mapTranscriptionToCommand_def prog_defs)

text \<open>
  C6, as the code has it. For every arguments payload that \<open>JSON.parse\<close> rejects,
  the operation returns \<open>undefined\<close> to its caller (an \<open>Inr\<close>: nothing is raised).
  When the payload is not the empty string it is decoded, the SyntaxError is caught
  and logged, and exactly one error notification is shown. The empty string is falsy,
  so it is never decoded: nothing is logged and no notification is shown.
\<close>

theorem malformed_arguments_absent_and_notified:
  assumes "2 < length (text t)"
    and "chat_completions_create env (functions_request (text t)) = Inr completion"
    and "function_call_arguments completion = Some a"
    and "JSON_parse env a = None"
  shows "mapTranscriptionToCommand env t s =
           (Inr JUndefined,
            if a = [] then s\<lparr>requests := requests s @ [functions_request (text t)]\<rparr>
            else
              s\<lparr>requests := requests s @ [functions_request (text t)],
                console := console s
                  @ [Error (lit ''Error mapping transcription to command:'') SyntaxError],
                errorMessages := errorMessages s
                  @ [lit ''Failed to map voice command to VS Code action'']\<rparr>)"
proof (cases "a = []")
  case True
  then show ?thesis
    using assms by (auto simp add: mapTranscriptionToCommand_def prog_defs)
next
  case False
  then show ?thesis
    using assms by (auto simp add: mapTranscriptionToCommand_def prog_defs)
qed

theorem malformed_arguments_absent_and_notified_witness:
  "JSON_parse (answering (function_call_reply (lit ''{\"command\":''))) (lit ''{\"command\":'')
     = None
   \<and> mapTranscriptionToCommand (answering (function_call_reply (lit ''{\"command\":'')))
          (spoken (lit ''save'')) empty_host
     = (Inr JUndefined,
        empty_host
          \<lparr>requests := [functions_request (lit ''save'')],
           console := [Error (lit ''Error mapping transcription to command:'') SyntaxError],
           errorMessages := [lit ''Failed to map voice command to VS Code action'']\<rparr>)"
  using malformed_arguments_absent_and_notified
    [of "spoken (lit ''save'')" "answering (function_call_reply (lit ''{\"command\":''))"
        "function_call_reply (lit ''{\"command\":'')" "lit ''{\"command\":''" empty_host]
  by (simp add: sample_defs function_call_arguments_def lit_simps)

text \<open>
  C6 as stated fails: the empty string is a payload that \<open>JSON.parse\<close> rejects, and
  a function call carrying it is answered with \<open>undefined\<close> and no notification at
  all; the request is the only trace of the run.
\<close>

theorem empty_arguments_no_notification:
  "function_call_arguments (function_call_reply []) = Some []
   \<and> JSON_parse (answering (function_call_reply [])) [] = None
   \<and> mapTranscriptionToCommand (answering (function_call_reply []))
          (spoken (lit ''save'')) empty_host
     = (Inr JUndefined, empty_host\<lparr>requests := [functions_request (lit ''save'')]\<rparr>)
   \<and> errorMessages (snd (mapTranscriptionToCommand (answering (function_call_reply []))
          (spoken (lit ''save'')) empty_host)) = []"
  by (simp add: mapTranscriptionToCommand_def prog_defs sample_defs
      function_call_arguments_def lit_simps)

section \<open>Executing a mapping\<close>

text \<open>
  C8. \<open>executeCommand\<close> returns normally (an \<open>Inr\<close>) for every mapping, host and
  state. When the host command it names throws, the failure is caught: it is logged to
  the console after the "Executing command" entry, one error notification is shown,
  and nothing else changes but the record of the invocation.
\<close>

theorem executeCommand_never_raises:
  "fst (executeCommand env mapping s) = Inr ()
   \<and> (member mapping (lit ''command'') = Inr c
        \<and> member mapping (lit ''args'') = Inr a
        \<and> commands_executeCommand env c [a] = Some e
      \<longrightarrow> snd (executeCommand env mapping s) =
            s\<lparr>console := console s
                 @ [Log (lit ''Executing command:'') mapping,
                    Error (lit ''Error executing VS Code command:'') e],
              invoked := invoked s @ [(c, [a])],
              errorMessages := errorMessages s
                 @ [lit ''Failed to execute VS Code command'']\<rparr>)"
proof (intro conjI impI)
  show "fst (executeCommand env mapping s) = Inr ()"
    by (auto simp add: executeCommand_def prog_defs
        split: sum.splits option.splits prod.splits)
next
  assume "member mapping (lit ''command'') = Inr c
        \<and> member mapping (lit ''args'') = Inr a
        \<and> commands_executeCommand env c [a] = Some e"
  then show "snd (executeCommand env mapping s) =
            s\<lparr>console := console s
                 @ [Log (lit ''Executing command:'') mapping,
                    Error (lit ''Error executing VS Code command:'') e],
              invoked := invoked s @ [(c, [a])],
              errorMessages := errorMessages s
                 @ [lit ''Failed to execute VS Code command'']\<rparr>"
    by (simp add: executeCommand_def prog_defs)
qed

theorem executeCommand_never_raises_witness:
  "commands_executeCommand rejecting (JString (lit ''workbench.action.files.save''))
       [JUndefined]
     = Some (Rejected (lit ''command not found''))
   \<and> executeCommand rejecting
        (JObject [(lit ''command'', JString (lit ''workbench.action.files.save''))])
        empty_host
     = (Inr (),
        empty_host
          \<lparr>console :=
             [Log (lit ''Executing command:'')
                (JObject [(lit ''command'', JString (lit ''workbench.action.files.save''))]),
              Error (lit ''Error executing VS Code command:'')
                (Rejected (lit ''command not found''))],
           invoked := [(JString (lit ''workbench.action.files.save''), [JUndefined])],
           errorMessages := [lit ''Failed to execute VS Code command'']\<rparr>)"
  using executeCommand_never_raises
    [of rejecting "JObject [(lit ''command'', JString (lit ''workbench.action.files.save''))]"
        empty_host "JString (lit ''workbench.action.files.save'')" JUndefined
        "Rejected (lit ''command not found'')"]
  by (simp add: prod_eq_iff rejecting_def empty_host_def lookup_def Object_prototype_def
      lit_simps)

section \<open>The tools path\<close>

lemma commandMap_lookup:
  "lookup commandMap (lit ''quickOpen'')
     = (JString (lit ''workbench.action.quickOpen'') :: 'n jsvalue)"
  "lookup commandMap (lit ''newFile'')
     = (JString (lit ''workbench.action.files.newUntitledFile'') :: 'n jsvalue)"
  "lookup commandMap (lit ''saveFile'')
     = (JString (lit ''workbench.action.files.save'') :: 'n jsvalue)"
  "lookup commandMap (lit ''closeEditor'')
     = (JString (lit ''workbench.action.closeActiveEditor'') :: 'n jsvalue)"
  "lookup commandMap (lit ''findInFiles'')
     = (JString (lit ''workbench.action.findInFiles'') :: 'n jsvalue)"
  "lookup commandMap (lit ''findReferences'')
     = (JString (lit ''references-view.findReferences'') :: 'n jsvalue)"
  by (simp_all add: lookup_def commandMap_def lit_eq_iff)

lemma commandMap_miss:
  assumes "n \<notin> set VS_CODE_COMMAND_TOOLS" and "n \<notin> set Object_prototype"
  shows "lookup commandMap n = (JUndefined :: 'n jsvalue)"
  using assms by (simp add: lookup_def commandMap_def VS_CODE_COMMAND_TOOLS_def)

text \<open>
  The run of \<open>mapTranscriptionToCommandViaTools\<close> on a function tool call whose
  arguments decode to a value with a readable \<open>filename\<close>.
\<close>

lemma ViaTools_tool_call:
  assumes "2 < length (text t)"
    and "chat_completions_create env (tools_request (text t)) = Inr completion"
    and "first_tool_call completion = Some toolCall"
    and "tc_type toolCall = lit ''function''"
    and "arguments (tc_function toolCall) \<noteq> []"
    and "JSON_parse env (arguments (tc_function toolCall)) = Some args"
    and "member args (lit ''filename'') = Inr filename"
  shows "mapTranscriptionToCommandViaTools env t s =
           (Inr (JObject [(lit ''command'', lookup commandMap (name (tc_function toolCall))),
                          (lit ''args'', filename)]),
            s\<lparr>requests := requests s @ [tools_request (text t)]\<rparr>)"
  using assms
  by (auto simp add: mapTranscriptionToCommandViaTools_def prog_defs)

text \<open>
  Arguments that decode to \<open>null\<close> have no readable \<open>filename\<close>: the read throws,
  and the operation ends on its failure path.
\<close>

lemma ViaTools_null_arguments:
  assumes "2 < length (text t)"
    and "chat_completions_create env (tools_request (text t)) = Inr completion"
    and "first_tool_call completion = Some toolCall"
    and "tc_type toolCall = lit ''function''"
    and "arguments (tc_function toolCall) \<noteq> []"
    and "JSON_parse env (arguments (tc_function toolCall)) = Some JNull"
  shows "mapTranscriptionToCommandViaTools env t s =
           (Inr JUndefined,
            s\<lparr>requests := requests s @ [tools_request (text t)],
              console := console s
                @ [Error (lit ''Error mapping transcription to command:'') TypeError],
              errorMessages := errorMessages s
                @ [lit ''Failed to map voice command to VS Code action'']\<rparr>)"
  using assms
  by (auto simp add: mapTranscriptionToCommandViaTools_def prog_defs)

text \<open>
  C4. For each of the six tool names, a first tool call of that name (a function call
  whose arguments decode) is answered with a mapping whose \<open>command\<close> is the host
  command the table gives: quickOpen, newFile, saveFile, closeEditor, findInFiles and
  findReferences go to workbench.action.quickOpen,
  workbench.action.files.newUntitledFile, workbench.action.files.save,
  workbench.action.closeActiveEditor, workbench.action.findInFiles and
  references-view.findReferences.
\<close>

theorem tool_name_selects_host_command:
  assumes "2 < length (text t)"
    and "chat_completions_create env (tools_request (text t)) = Inr completion"
    and "first_tool_call completion = Some toolCall"
    and "tc_type toolCall = lit ''function''"
    and "arguments (tc_function toolCall) \<noteq> []"
    and "JSON_parse env (arguments (tc_function toolCall)) = Some args"
    and "member args (lit ''filename'') = Inr filename"
    and "(name (tc_function toolCall), command) \<in> set
           [(lit ''quickOpen'', lit ''workbench.action.quickOpen''),
            (lit ''newFile'', lit ''workbench.action.files.newUntitledFile''),
            (lit ''saveFile'', lit ''workbench.action.files.save''),
            (lit ''closeEditor'', lit ''workbench.action.closeActiveEditor''),
            (lit ''findInFiles'', lit ''workbench.action.findInFiles''),
            (lit ''findReferences'', lit ''references-view.findReferences'')]"
  shows "fst (mapTranscriptionToCommandViaTools env t s) =
           Inr (JObject [(lit ''command'', JString command), (lit ''args'', filename)])
       \<and> member (JObject [(lit ''command'', JString command), (lit ''args'', filename)])
           (lit ''command'') = Inr (JString command)"
proof -
  have "lookup commandMap (name (tc_function toolCall)) = (JString command :: 'a jsvalue)"
    using assms(8) by (auto simp add: commandMap_lookup)
  then show ?thesis
    using ViaTools_tool_call [OF assms(1-7), of s] by (simp add: lookup_def)
qed

theorem tool_name_selects_host_command_witness:
  "fst (mapTranscriptionToCommandViaTools
          (answering (tool_call_reply (lit ''quickOpen'') (lit ''{\"filename\":\"config\"}'')))
          (spoken (lit ''the config file'')) empty_host)
     = Inr (JObject [(lit ''command'', JString (lit ''workbench.action.quickOpen'')),
                     (lit ''args'', JString (lit ''config''))])
   \<and> fst (mapTranscriptionToCommandViaTools
          (answering (tool_call_reply (lit ''newFile'') (lit ''{\"filename\":\"config\"}'')))
          (spoken (lit ''the config file'')) empty_host)
     = Inr (JObject [(lit ''command'', JString (lit ''workbench.action.files.newUntitledFile'')),
                     (lit ''args'', JString (lit ''config''))])
   \<and> fst (mapTranscriptionToCommandViaTools
          (answering (tool_call_reply (lit ''saveFile'') (lit ''{\"filename\":\"config\"}'')))
          (spoken (lit ''the config file'')) empty_host)
     = Inr (JObject [(lit ''command'', JString (lit ''workbench.action.files.save'')),
                     (lit ''args'', JString (lit ''config''))])
   \<and> fst (mapTranscriptionToCommandViaTools
          (answering (tool_call_reply (lit ''closeEditor'') (lit ''{\"filename\":\"config\"}'')))
          (spoken (lit ''the config file'')) empty_host)
     = Inr (JObject [(lit ''command'', JString (lit ''workbench.action.closeActiveEditor'')),
                     (lit ''args'', JString (lit ''config''))])
   \<and> fst (mapTranscriptionToCommandViaTools
          (answering (tool_call_reply (lit ''findInFiles'') (lit ''{\"filename\":\"config\"}'')))
          (spoken (lit ''the config file'')) empty_host)
     = Inr (JObject [(lit ''command'', JString (lit ''workbench.action.findInFiles'')),
                     (lit ''args'', JString (lit ''config''))])
   \<and> fst (mapTranscriptionToCommandViaTools
          (answering (tool_call_reply (lit ''findReferences'') (lit ''{\"filename\":\"config\"}'')))
          (spoken (lit ''the config file'')) empty_host)
     = Inr (JObject [(lit ''command'', JString (lit ''references-view.findReferences'')),
                     (lit ''args'', JString (lit ''config''))])"
proof -
  let ?a = "lit ''{\"filename\":\"config\"}''"
  let ?t = "spoken (lit ''the config file'')"
  let ?table =
    "[(lit ''quickOpen'', lit ''workbench.action.quickOpen''),
      (lit ''newFile'', lit ''workbench.action.files.newUntitledFile''),
      (lit ''saveFile'', lit ''workbench.action.files.save''),
      (lit ''closeEditor'', lit ''workbench.action.closeActiveEditor''),
      (lit ''findInFiles'', lit ''workbench.action.findInFiles''),
      (lit ''findReferences'', lit ''references-view.findReferences'')]"
  have run: "fst (mapTranscriptionToCommandViaTools (answering (tool_call_reply n ?a)) ?t
                empty_host)
             = Inr (JObject [(lit ''command'', JString c),
                             (lit ''args'', JString (lit ''config''))])"
    if "(n, c) \<in> set ?table" for n c
  proof -
    let ?tc = "\<lparr>tc_type = lit ''function'', tc_function = \<lparr>name = n, arguments = ?a\<rparr>\<rparr>"
    let ?args = "JObject [(lit ''filename'', JString (lit ''config''))] :: real jsvalue"
    have 1: "2 < length (text ?t)" by (simp add: spoken_def length_lit)
    have 2: "chat_completions_create (answering (tool_call_reply n ?a))
               (tools_request (text ?t)) = Inr (tool_call_reply n ?a)"
      by (simp add: answering_def)
    have 3: "first_tool_call (tool_call_reply n ?a) = Some ?tc"
      by (simp add: first_tool_call_def tool_call_reply_def)
    have 4: "tc_type ?tc = lit ''function''" by simp
    have 5: "arguments (tc_function ?tc) \<noteq> []" by (simp add: lit_Nil_iff)
    have 6: "JSON_parse (answering (tool_call_reply n ?a)) (arguments (tc_function ?tc))
               = Some ?args"
      by (simp add: answering_def sample_JSON_parse_def lit_eq_iff)
    have 7: "member ?args (lit ''filename'') = Inr (JString (lit ''config''))"
      by (simp add: lookup_def)
    have 8: "(name (tc_function ?tc), c) \<in> set ?table" using that by simp
    show ?thesis
      using tool_name_selects_host_command [OF 1 2 3 4 5 6 7 8, of empty_host] by simp
  qed
  show ?thesis by (simp add: run)
qed





text \<open>
  C10. There is a model reply whose first tool call names a function outside the six
  tools, with arguments that decode, for which the operation returns a mapping whose
  \<open>command\<close> is \<open>undefined\<close>: the reply calls \<open>deleteFile\<close> with the arguments
  \<open>{"filename":"config"}\<close>, the table has no entry for the name, and the result is
  the mapping \<open>{command: undefined, args: "config"}\<close>, not \<open>undefined\<close>.
\<close>

theorem unknown_tool_name_gives_undefined_command:
  "chat_completions_create
       (answering (tool_call_reply (lit ''deleteFile'') (lit ''{\"filename\":\"config\"}'')))
       (tools_request (text (spoken (lit ''delete the config file''))))
     = Inr (tool_call_reply (lit ''deleteFile'') (lit ''{\"filename\":\"config\"}''))
   \<and> first_tool_call (tool_call_reply (lit ''deleteFile'') (lit ''{\"filename\":\"config\"}''))
     = Some \<lparr>tc_type = lit ''function'',
              tc_function = \<lparr>name = lit ''deleteFile'',
                              arguments = lit ''{\"filename\":\"config\"}''\<rparr>\<rparr>
   \<and> lit ''deleteFile'' \<notin> set VS_CODE_COMMAND_TOOLS
   \<and> JSON_parse
       (answering (tool_call_reply (lit ''deleteFile'') (lit ''{\"filename\":\"config\"}'')))
       (lit ''{\"filename\":\"config\"}'')
     = Some (JObject [(lit ''filename'', JString (lit ''config''))])
   \<and> mapTranscriptionToCommandViaTools
       (answering (tool_call_reply (lit ''deleteFile'') (lit ''{\"filename\":\"config\"}'')))
       (spoken (lit ''delete the config file'')) empty_host
     = (Inr (JObject [(lit ''command'', JUndefined),
                      (lit ''args'', JString (lit ''config''))]),
        empty_host\<lparr>requests := [tools_request (lit ''delete the config file'')]\<rparr>)
   \<and> member (JObject [(lit ''command'', JUndefined),
                      (lit ''args'', JString (lit ''config''))] :: real jsvalue)
       (lit ''command'') = Inr JUndefined"
proof -
  let ?a = "lit ''{\"filename\":\"config\"}''"
  let ?c = "tool_call_reply (lit ''deleteFile'') ?a"
  let ?env = "answering ?c"
  let ?t = "spoken (lit ''delete the config file'')"
  let ?tc = "\<lparr>tc_type = lit ''function'',
              tc_function = \<lparr>name = lit ''deleteFile'', arguments = ?a\<rparr>\<rparr>"
  let ?args = "JObject [(lit ''filename'', JString (lit ''config''))] :: real jsvalue"
  let ?r = "JObject [(lit ''command'', JUndefined),
                     (lit ''args'', JString (lit ''config''))] :: real jsvalue"
  have long: "2 < length (text ?t)"
    by (simp add: spoken_def length_lit)
  have reply: "chat_completions_create ?env (tools_request (text ?t)) = Inr ?c"
    by (simp add: answering_def)
  have call: "first_tool_call ?c = Some ?tc"
    by (simp add: first_tool_call_def tool_call_reply_def)
  have kind: "tc_type ?tc = lit ''function''"
    by simp
  have given: "arguments (tc_function ?tc) \<noteq> []"
    by (simp add: lit_Nil_iff)
  have decoded: "JSON_parse ?env (arguments (tc_function ?tc)) = Some ?args"
    by (simp add: answering_def sample_JSON_parse_def lit_eq_iff)
  have filename: "member ?args (lit ''filename'') = Inr (JString (lit ''config''))"
    by (simp add: lookup_def)
  have unknown: "name (tc_function ?tc) \<notin> set VS_CODE_COMMAND_TOOLS"
    by (simp add: VS_CODE_COMMAND_TOOLS_def lit_eq_iff)
  have not_inherited: "name (tc_function ?tc) \<notin> set Object_prototype"
    by (simp add: Object_prototype_def lit_eq_iff)
  have "mapTranscriptionToCommandViaTools ?env ?t empty_host
          = (Inr ?r, empty_host\<lparr>requests := [tools_request (lit ''delete the config file'')]\<rparr>)"
    using ViaTools_tool_call [OF long reply call kind given decoded filename, of empty_host]
      commandMap_miss [OF unknown not_inherited]
    by (simp add: spoken_def empty_host_def)
  moreover have "member ?r (lit ''command'') = Inr JUndefined"
    by (simp add: lookup_def)
  ultimately show ?thesis
    using reply call unknown decoded by simp
qed

section \<open>Segments\<close>

lemmas hearing_defs = processRecording_def hearing_def empty_host_def
  first_function_call_def interpret_function_call_def function_call_reply_def
  sample_JSON_parse_def lookup_def Object_prototype_def sample_ToString_def lit_eq_iff
  optional_member_def convert_segment_def heard_segment_def recording_request_def
  PROVIDER_MODELS_def Let_def

text \<open>
  A decoded \<open>command\<close> that cannot be interpolated ends the \<open>try\<close> block before
  anything is assigned: the text stays \<open>none\<close>, the command stays empty, and the
  error goes to the output channel.
\<close>

lemma uninterpolable_command_not_run:
  assumes "arguments fc \<noteq> []"
    and "JSON_parse env (arguments fc) = Some args"
    and "member args (lit ''command'') = Inr command"
    and "ToString env command = Inl e"
  shows "interpret_function_call env (Some fc) s =
           (Inr (lit ''none'', JString [], []),
            s\<lparr>outputChannel := outputChannel s @ [Error_parsing_function_arguments e]\<rparr>)"
  using assms
  by (simp add: interpret_function_call_def prog_defs)

text \<open>
  C9, as the code has it. Whenever \<open>processRecording\<close> returns a Transcription, its
  segments are the speech engine's segments in order (none when the engine sent
  none), each with \<open>id\<close>, \<open>start\<close>, \<open>end\<close> and \<open>text\<close> unchanged and with \<open>seek\<close>,
  \<open>tokens\<close> and \<open>temperature\<close> set to \<open>0\<close>, \<open>[]\<close> and \<open>0\<close>. The two mapping
  operations read the text only: replacing the segments of their input changes
  nothing.
\<close>

theorem processRecording_segments:
  assumes "processRecording env s = (Inr (Some result), s')"
  shows "(\<exists>transcription.
            audio_transcriptions_create env
              (PROVIDER_MODELS (case apiProvider env of None \<Rightarrow> openai | Some p \<Rightarrow> p))
              = Inr transcription
          \<and> segments result =
              map (\<lambda>seg. \<lparr>seg_id = seg_id seg, seek = 0, start = start seg,
                          seg_end = seg_end seg, seg_text = seg_text seg, tokens = [],
                          temperature = 0\<rparr>)
                (case raw_segments transcription of None \<Rightarrow> [] | Some segs \<Rightarrow> segs))
       \<and> mapTranscriptionToCommand menv (result\<lparr>segments := segs'\<rparr>)
           = mapTranscriptionToCommand menv result
       \<and> mapTranscriptionToCommandViaTools menv (result\<lparr>segments := segs'\<rparr>)
           = mapTranscriptionToCommandViaTools menv result"
proof -
  have "\<exists>transcription.
          audio_transcriptions_create env
            (PROVIDER_MODELS (case apiProvider env of None \<Rightarrow> openai | Some p \<Rightarrow> p))
            = Inr transcription
        \<and> segments result =
            map (\<lambda>seg. \<lparr>seg_id = seg_id seg, seek = 0, start = start seg,
                        seg_end = seg_end seg, seg_text = seg_text seg, tokens = [],
                        temperature = 0\<rparr>)
              (case raw_segments transcription of None \<Rightarrow> [] | Some segs \<Rightarrow> segs)"
    using assms
    apply (simp add: processRecording_def try_catch_def)
    apply (auto simp add: prog_defs Let_def convert_segment_def
        split: option.splits sum.splits prod.splits if_splits)
    done
  moreover have "mapTranscriptionToCommand menv (result\<lparr>segments := segs'\<rparr>)
                   = mapTranscriptionToCommand menv result"
    by (simp add: mapTranscriptionToCommand_def)
  moreover have "mapTranscriptionToCommandViaTools menv (result\<lparr>segments := segs'\<rparr>)
                   = mapTranscriptionToCommandViaTools menv result"
    by (simp add: mapTranscriptionToCommandViaTools_def)
  ultimately show ?thesis by simp
qed

theorem processRecording_segments_witness:
  "processRecording hearing empty_host =
     (Inr (Some \<lparr>text = lit ''workbench.action.files.save'',
                  segments = [\<lparr>seg_id = 0, seek = 0, start = 0, seg_end = 1.5,
                                seg_text = lit '' save'', tokens = [], temperature = 0\<rparr>],
                  language = lit ''english''\<rparr>),
      snd (processRecording hearing empty_host))
   \<and> segments (\<lparr>text = lit ''workbench.action.files.save'',
                 segments = [\<lparr>seg_id = 0, seek = 0, start = 0, seg_end = 1.5,
                               seg_text = lit '' save'', tokens = [], temperature = 0\<rparr>],
                 language = lit ''english''\<rparr> :: real Transcription)
     = [\<lparr>seg_id = seg_id heard_segment, seek = 0, start = start heard_segment,
          seg_end = seg_end heard_segment, seg_text = seg_text heard_segment,
          tokens = [], temperature = 0\<rparr>]"
proof -
  let ?result =
    "\<lparr>text = lit ''workbench.action.files.save'',
      segments = [\<lparr>seg_id = 0, seek = 0, start = 0, seg_end = 1.5,
                    seg_text = lit '' save'', tokens = [], temperature = 0\<rparr>],
      language = lit ''english''\<rparr> :: real Transcription"
  have "fst (processRecording hearing empty_host) = Inr (Some ?result)"
    by (simp add: hearing_defs prog_defs lit_simps)
  then have run: "processRecording hearing empty_host
                    = (Inr (Some ?result), snd (processRecording hearing empty_host))"
    by (simp add: prod_eq_iff)
  from processRecording_segments [OF run, of "answering content_reply" "[]"]
  obtain transcription where
    "audio_transcriptions_create hearing
       (PROVIDER_MODELS (case apiProvider hearing of None \<Rightarrow> openai | Some p \<Rightarrow> p))
       = Inr transcription"
    and segs: "segments ?result =
       map (\<lambda>seg. \<lparr>seg_id = seg_id seg, seek = 0, start = start seg,
                   seg_end = seg_end seg, seg_text = seg_text seg, tokens = [],
                   temperature = 0\<rparr>)
         (case raw_segments transcription of None \<Rightarrow> [] | Some segs \<Rightarrow> segs)"
    by blast
  then have "raw_segments transcription = Some [heard_segment]"
    by (auto simp add: hearing_def)
  with segs run show ?thesis by simp
qed

text \<open>
  C9 as stated fails: the engine reports a segment with seek offset 3000, three tokens
  and temperature 0.2, and the Transcription \<open>processRecording\<close> returns carries the
  segment with seek 0, no tokens and temperature 0.
\<close>

theorem processRecording_resets_seek_tokens_temperature:
  "audio_transcriptions_create hearing (lit ''whisper-1'')
     = Inr \<lparr>raw_text = lit '' save'', raw_segments = Some [heard_segment],
            raw_language = lit ''english''\<rparr>
   \<and> seek heard_segment = 3000
   \<and> tokens heard_segment = [50364, 4155, 50439]
   \<and> temperature heard_segment = 0.2
   \<and> fst (processRecording hearing empty_host) =
       Inr (Some \<lparr>text = lit ''workbench.action.files.save'',
                  segments = [\<lparr>seg_id = 0, seek = 0, start = 0, seg_end = 1.5,
                                seg_text = lit '' save'', tokens = [], temperature = 0\<rparr>],
                  language = lit ''english''\<rparr>)
   \<and> [\<lparr>seg_id = 0, seek = 0, start = 0, seg_end = 1.5,
         seg_text = lit '' save'', tokens = [], temperature = 0\<rparr>] \<noteq> [heard_segment]"
  by (simp add: hearing_defs prog_defs lit_simps)


end
